theory Spec2Isabelle
  imports Main "HOL-Library.Word"
begin

section \<open>Go values the client works with\<close>

text \<open>
  A \<^verbatim>\<open>[]byte\<close> (and \<^verbatim>\<open>json.RawMessage\<close>) is a list of characters, a \<^verbatim>\<open>uint64\<close> is a
  64-bit word (\<open>+\<close> wraps, as Go's unsigned addition does), Go's \<^verbatim>\<open>int\<close> holds an HTTP
  status or a JSON-RPC code and is an \<open>int\<close>.
\<close>

type_synonym bytes = string
type_synonym uint64 = "64 word"

text \<open>
  An \<^verbatim>\<open>error\<close> value. \<^verbatim>\<open>errors.New(s)\<close> and \<^verbatim>\<open>fmt.Errorf\<close> without \<^verbatim>\<open>%w\<close> both
  build an error that holds nothing but its text: \<open>ErrorsNew s\<close>. \<open>LibraryError\<close> is an
  error handed back by \<^verbatim>\<open>json.Marshal\<close>, \<^verbatim>\<open>http.Client.Post\<close>, \<^verbatim>\<open>ioutil.ReadAll\<close> or
  \<^verbatim>\<open>json.Unmarshal\<close>, which \<open>Call\<close> returns as it is.
\<close>

datatype error = ErrorsNew string | LibraryError string

text \<open>
  A value of type \<^verbatim>\<open>interface{}\<close>: the nil interface, a string, a \<^verbatim>\<open>[]string\<close>, or a
  value of any other dynamic type (\<open>'v\<close>).
\<close>

datatype 'v any = Nil_any | String_any string | StringSlice "string list" | Other 'v

text \<open>How a run of a function ends: it returns, or the goroutine panics on a nil pointer.\<close>

datatype 'a outcome = Returned 'a | NilPointerDereference

subsection \<open>The verb \<^verbatim>\<open>%d\<close> of package fmt\<close>

fun decimal :: "nat \<Rightarrow> string" where
  "decimal n =
     (if n < 10 then [''0123456789'' ! n]
      else decimal (n div 10) @ [''0123456789'' ! (n mod 10)])"

declare decimal.simps [simp del]

definition fmt_d :: "int \<Rightarrow> string" where
  "fmt_d i = (if i < 0 then CHR ''-'' # decimal (nat (- i)) else decimal (nat i))"

section \<open>The envelopes\<close>

record 'v KamJsonRpcRequest =
  Jsonrpc :: string
  Method :: string
  Params :: "'v any list"
  Id :: uint64

record KamError =
  Code :: int
  Message :: string

text \<open>
  The response envelope. \<open>Jsonrpc\<close> and \<open>Id\<close> are already the request's fields (a
  record's field names are constants), so here they carry a suffix. \<open>Result\<close> and
  \<open>Error\<close> are pointers: \<open>None\<close> is nil.
\<close>

record KamJsonRpcResponse =
  Jsonrpc_r :: string
  Id_r :: uint64
  Result :: "bytes option"
  Error :: "KamError option"

section \<open>The libraries around the client\<close>

subsection \<open>Decoding a response body: \<^verbatim>\<open>json.Unmarshal(respBody, &kamResponse)\<close>\<close>

text \<open>
  A member of a JSON object as it stands in the body: not there, the literal \<^verbatim>\<open>null\<close>,
  or a value that fits the field's type.
\<close>

datatype 'a member = Absent | Null | Present 'a

text \<open>
  A response body is either one that \<^verbatim>\<open>json.Unmarshal\<close> refuses with an error (not JSON,
  or a member whose value does not fit its field), or a document Unmarshal accepts for
  \<^verbatim>\<open>KamJsonRpcResponse\<close>, given by the four members the struct's tags name. The
  \<^verbatim>\<open>result\<close> member's value is its text in the body, which is what a
  \<^verbatim>\<open>json.RawMessage\<close> receives.
\<close>

record error_object =
  code_m :: "int member"
  message_m :: "string member"

record envelope =
  jsonrpc_m :: "string member"
  id_m :: "uint64 member"
  result_m :: "bytes member"
  error_m :: "error_object member"

datatype body = Refused error | Document envelope

text \<open>
  encoding/json on a field that is not a pointer: an absent member and \<^verbatim>\<open>null\<close> leave the
  field as it is (here the zero value of \<^verbatim>\<open>var kamResponse\<close>); a value is stored.
\<close>

definition plain_field :: "'a \<Rightarrow> 'a member \<Rightarrow> 'a" where
  "plain_field zero m = (case m of Absent \<Rightarrow> zero | Null \<Rightarrow> zero | Present v \<Rightarrow> v)"

text \<open>
  encoding/json on a pointer field: an absent member leaves it nil, \<^verbatim>\<open>null\<close> sets it to
  nil ("the JSON null value unmarshals into a pointer by setting it to nil"), a value is
  stored in a fresh location.
\<close>

definition pointer_field :: "'a member \<Rightarrow> 'a option" where
  "pointer_field m = (case m of Absent \<Rightarrow> None | Null \<Rightarrow> None | Present v \<Rightarrow> Some v)"

definition decode_KamError :: "error_object \<Rightarrow> KamError" where
  "decode_KamError e =
     \<lparr>Code = plain_field 0 (code_m e), Message = plain_field [] (message_m e)\<rparr>"

definition json_Unmarshal :: "body \<Rightarrow> error + KamJsonRpcResponse" where
  "json_Unmarshal respBody =
     (case respBody of
        Refused err \<Rightarrow> Inl err
      | Document d \<Rightarrow>
          Inr \<lparr>Jsonrpc_r = plain_field [] (jsonrpc_m d),
               Id_r = plain_field 0 (id_m d),
               Result = pointer_field (result_m d),
               Error = map_option decode_KamError (pointer_field (error_m d))\<rparr>)"

subsection \<open>The HTTP exchange and the encoder\<close>

text \<open>
  \<open>StatusCode\<close> is the response's status, \<open>Body\<close> what \<^verbatim>\<open>ioutil.ReadAll(resp.Body)\<close>
  gives: an error or the bytes read, taken here as the body they spell.
\<close>

record http_Response =
  StatusCode :: int
  Body :: "error + body"

text \<open>
  What one call meets outside the client: \<^verbatim>\<open>json.Marshal\<close> on the request envelope, and
  \<^verbatim>\<open>self.client.Post(url, contentType, body)\<close>, the server behind it included.
\<close>

record 'v world =
  json_Marshal :: "'v KamJsonRpcRequest \<Rightarrow> error + bytes"
  http_Post :: "string \<Rightarrow> string \<Rightarrow> bytes \<Rightarrow> error + http_Response"

section \<open>The client\<close>

text \<open>
  \<open>client\<close> holds the one setting of the HTTP client: \<^verbatim>\<open>InsecureSkipVerify\<close>. The field
  \<^verbatim>\<open>id\<close> is \<open>id_n\<close> here (\<open>id\<close> is HOL's identity). The mutex guards lines 61 and 62
  only, so a call reads and increments the counter in one step.
\<close>

record KamailioJsonRpc =
  url :: string
  client :: bool
  id_n :: uint64

definition NewKamailioJsonRpc :: "string \<Rightarrow> bool \<Rightarrow> KamailioJsonRpc \<times> error option" where
  "NewKamailioJsonRpc u skipTlsVerify = (\<lparr>url = u, client = skipTlsVerify, id_n = 0\<rparr>, None)"

text \<open>
  Lines 66 to 69: \<^verbatim>\<open>for idx, val := range argSlice { req.Params[idx] = val }\<close>, from
  index \<open>idx\<close> on.
\<close>

fun range_argSlice :: "nat \<Rightarrow> string list \<Rightarrow> 'v any list \<Rightarrow> 'v any list" where
  "range_argSlice idx [] params = params"
| "range_argSlice idx (val # rest) params =
     range_argSlice (Suc idx) rest (params[idx := String_any val])"

text \<open>
  What a run of \<open>Call\<close> leaves behind: how it ended (\<open>Returned None\<close> is the nil
  error), the client, the request envelope it gave to \<^verbatim>\<open>json.Marshal\<close>, and the
  caller's \<^verbatim>\<open>reply\<close> (\<open>None\<close>: the caller passed a nil pointer; \<open>Some b\<close>: the location
  holds \<open>b\<close>).
\<close>

record 'v called =
  ended :: "error option outcome"
  self_after :: KamailioJsonRpc
  req_made :: "'v KamJsonRpcRequest"
  reply_after :: "bytes option"

definition Call ::
  "'v world \<Rightarrow> KamailioJsonRpc \<Rightarrow> string \<Rightarrow> 'v any \<Rightarrow> bytes option \<Rightarrow> 'v called" where
  "Call w self serviceMethod args reply =
     (let reqId = id_n self;
          self' = self\<lparr>id_n := id_n self + 1\<rparr>;
          req = \<lparr>Jsonrpc = ''2.0'', Method = serviceMethod,
                 Params = (case args of
                             StringSlice argSlice \<Rightarrow>
                               range_argSlice 0 argSlice (replicate (length argSlice) Nil_any)
                           | _ \<Rightarrow> [args]),
                 Id = reqId\<rparr>;
          return = (\<lambda>err. \<lparr>ended = Returned err, self_after = self', req_made = req,
                             reply_after = reply\<rparr>)
      in case json_Marshal w req of
           Inl err \<Rightarrow> return (Some err)
         | Inr body \<Rightarrow>
        (case http_Post w (url self) ''application/json'' body of
           Inl err \<Rightarrow> return (Some err)
         | Inr resp \<Rightarrow>
        (case Body resp of
           Inl err \<Rightarrow> return (Some err)
         | Inr respBody \<Rightarrow>
        (case json_Unmarshal respBody of
           Inl err \<Rightarrow> return (Some err)
         | Inr kamResponse \<Rightarrow>
        (case Error kamResponse of
           Some e \<Rightarrow> return (Some (ErrorsNew (Message e)))
         | None \<Rightarrow>
        if StatusCode resp > 299
        then return (Some (ErrorsNew
               (''Unexpected status code received: '' @ fmt_d (StatusCode resp))))
        else if Id_r kamResponse \<noteq> reqId
        then return (Some (ErrorsNew
               (''Unsynchronized request, had: '' @ decimal (unat reqId) @
                '', received: '' @ decimal (unat (Id_r kamResponse)))))
        else (case (reply, Result kamResponse) of
                (Some _, Some raw) \<Rightarrow>
                  \<lparr>ended = Returned None, self_after = self', req_made = req,
                   reply_after = Some raw\<rparr>
              | _ \<Rightarrow>
                  \<lparr>ended = NilPointerDereference, self_after = self', req_made = req,
                   reply_after = reply\<rparr>))))))"

section \<open>The methods over the generic one\<close>

definition OK :: string where
  "OK = ''OK''"

text \<open>
  The five wrappers that report \<open>OK\<close> differ in the method name only. Each passes the
  address of a fresh \<^verbatim>\<open>json.RawMessage\<close> (empty) to \<open>Call\<close>, and writes \<open>OK\<close> to
  \<^verbatim>\<open>*reply\<close> (a \<^verbatim>\<open>*string\<close>: \<open>None\<close> is nil) when \<open>Call\<close> returns nil.
\<close>

record ok_called =
  ok_ended :: "error option outcome"
  ok_self_after :: KamailioJsonRpc
  ok_reply_after :: "string option"

definition call_then_OK ::
  "string \<Rightarrow> 'v world \<Rightarrow> KamailioJsonRpc \<Rightarrow> string list \<Rightarrow> string option \<Rightarrow> ok_called" where
  "call_then_OK name w self params reply =
     (let c = Call w self name (StringSlice params) (Some [])
      in case ended c of
           NilPointerDereference \<Rightarrow>
             \<lparr>ok_ended = NilPointerDereference, ok_self_after = self_after c,
              ok_reply_after = reply\<rparr>
         | Returned (Some err) \<Rightarrow>
             \<lparr>ok_ended = Returned (Some err), ok_self_after = self_after c,
              ok_reply_after = reply\<rparr>
         | Returned None \<Rightarrow>
             (case reply of
                None \<Rightarrow>
                  \<lparr>ok_ended = NilPointerDereference, ok_self_after = self_after c,
                   ok_reply_after = reply\<rparr>
              | Some _ \<Rightarrow>
                  \<lparr>ok_ended = Returned None, ok_self_after = self_after c,
                   ok_reply_after = Some OK\<rparr>))"

definition UacRegEnable ::
  "'v world \<Rightarrow> KamailioJsonRpc \<Rightarrow> string list \<Rightarrow> string option \<Rightarrow> ok_called" where
  "UacRegEnable = call_then_OK ''uac.reg_enable''"

definition UacRegDisable ::
  "'v world \<Rightarrow> KamailioJsonRpc \<Rightarrow> string list \<Rightarrow> string option \<Rightarrow> ok_called" where
  "UacRegDisable = call_then_OK ''uac.reg_disable''"

definition UacRegReload ::
  "'v world \<Rightarrow> KamailioJsonRpc \<Rightarrow> string list \<Rightarrow> string option \<Rightarrow> ok_called" where
  "UacRegReload = call_then_OK ''uac.reg_reload''"

definition UacRegRefresh ::
  "'v world \<Rightarrow> KamailioJsonRpc \<Rightarrow> string list \<Rightarrow> string option \<Rightarrow> ok_called" where
  "UacRegRefresh = call_then_OK ''uac.reg_refresh''"

definition DomainReload ::
  "'v world \<Rightarrow> KamailioJsonRpc \<Rightarrow> string list \<Rightarrow> string option \<Rightarrow> ok_called" where
  "DomainReload = call_then_OK ''domain.reload''"

section \<open>Reading a run of \<open>Call\<close>\<close>

text \<open>
  Lines 73 to 85 of \<open>Call\<close>: the request is encoded and posted and the body read. The
  value is the error \<open>Call\<close> returns there, or the status and the body it goes on with.
  (The request \<open>Call\<close> makes does not depend on \<^verbatim>\<open>reply\<close>.)
\<close>

definition round_trip ::
  "'v world \<Rightarrow> KamailioJsonRpc \<Rightarrow> string \<Rightarrow> 'v any \<Rightarrow> error + int \<times> body" where
  "round_trip w self serviceMethod args =
     (case json_Marshal w (req_made (Call w self serviceMethod args None)) of
        Inl err \<Rightarrow> Inl err
      | Inr body \<Rightarrow>
     (case http_Post w (url self) ''application/json'' body of
        Inl err \<Rightarrow> Inl err
      | Inr resp \<Rightarrow>
     (case Body resp of
        Inl err \<Rightarrow> Inl err
      | Inr respBody \<Rightarrow> Inr (StatusCode resp, respBody))))"

text \<open>The two errors \<open>Call\<close> words itself.\<close>

definition unexpected_status :: "int \<Rightarrow> error" where
  "unexpected_status code = ErrorsNew (''Unexpected status code received: '' @ fmt_d code)"

definition unsynchronized :: "uint64 \<Rightarrow> uint64 \<Rightarrow> error" where
  "unsynchronized had received =
     ErrorsNew (''Unsynchronized request, had: '' @ decimal (unat had) @
                '', received: '' @ decimal (unat received))"

text \<open>
  One invocation of \<open>Call\<close> on a client, and a sequence of invocations on the same
  client, in the order in which they pass lines 60 to 63.
\<close>

record 'v invocation =
  i_world :: "'v world"
  i_serviceMethod :: string
  i_args :: "'v any"
  i_reply :: "bytes option"

fun calls :: "KamailioJsonRpc \<Rightarrow> 'v invocation list \<Rightarrow> 'v called list" where
  "calls self [] = []"
| "calls self (i # rest) =
     (let c = Call (i_world i) self (i_serviceMethod i) (i_args i) (i_reply i)
      in c # calls (self_after c) rest)"

definition ids_used :: "KamailioJsonRpc \<Rightarrow> 'v invocation list \<Rightarrow> uint64 list" where
  "ids_used self is = map (\<lambda>c. Id (req_made c)) (calls self is)"

text \<open>
  A server for the examples: \<^verbatim>\<open>json.Marshal\<close> succeeds, and every POST is answered
  with the given status and body.
\<close>

definition answering :: "int \<Rightarrow> body \<Rightarrow> unit world" where
  "answering status respBody =
     \<lparr>json_Marshal = (\<lambda>req. Inr ''{}''),
      http_Post = (\<lambda>u contentType b. Inr \<lparr>StatusCode = status, Body = Inr respBody\<rparr>)\<rparr>"

definition fresh :: KamailioJsonRpc where
  "fresh = fst (NewKamailioJsonRpc ''http://127.0.0.1:5060/RPC'' False)"

text \<open>
  Response bodies for the examples: \<^verbatim>\<open>{"jsonrpc":"2.0","id":i,"error":{"code":c,"message":m}}\<close>
  and \<^verbatim>\<open>{"jsonrpc":"2.0","id":i,"result":r}\<close> (with the \<^verbatim>\<open>result\<close> member left out when
  \<open>r\<close> is \<open>Absent\<close>).
\<close>

definition error_reply :: "uint64 \<Rightarrow> int \<Rightarrow> string \<Rightarrow> body" where
  "error_reply i code msg =
     Document \<lparr>jsonrpc_m = Present ''2.0'', id_m = Present i, result_m = Absent,
               error_m = Present \<lparr>code_m = Present code, message_m = Present msg\<rparr>\<rparr>"

definition result_reply :: "uint64 \<Rightarrow> bytes member \<Rightarrow> body" where
  "result_reply i r =
     Document \<lparr>jsonrpc_m = Present ''2.0'', id_m = Present i, result_m = r,
               error_m = Absent\<rparr>"

definition ping :: "unit invocation" where
  "ping = \<lparr>i_world = answering 200 (result_reply 0 (Present ''[1, 2]'')),
           i_serviceMethod = ''core.echo'', i_args = StringSlice [''ping''],
           i_reply = Some []\<rparr>"

text \<open>
  A world for the examples that shows what is encoded and posted: \<^verbatim>\<open>json.Marshal\<close> refuses
  a parameter of another type and otherwise writes the parameters in order, each followed
  by a comma; the server refuses the body \<open>a,b,\<close> and answers any other body with
  status 200 and that body as the result.
\<close>

fun render :: "unit any \<Rightarrow> string" where
  "render Nil_any = ''null''"
| "render (String_any s) = s"
| "render (StringSlice ss) = concat ss"
| "render (Other v) = ''?''"

definition echoing :: "unit world" where
  "echoing =
     \<lparr>json_Marshal = (\<lambda>req.
        if Other () \<in> set (Params req) then Inl (LibraryError ''json: unsupported type'')
        else Inr (concat (map (\<lambda>p. render p @ '','') (Params req)))),
      http_Post = (\<lambda>u contentType b.
        if b = ''a,b,'' then Inl (LibraryError ''connection refused'')
        else Inr \<lparr>StatusCode = 200, Body = Inr (result_reply 0 (Present b))\<rparr>)\<rparr>"

text \<open>What \<open>Call\<close> leaves behind, with the client and the request filled in.\<close>

definition leaves ::
  "'v world \<Rightarrow> KamailioJsonRpc \<Rightarrow> string \<Rightarrow> 'v any \<Rightarrow> error option outcome \<Rightarrow> bytes option \<Rightarrow>
   'v called" where
  "leaves w self serviceMethod args e r =
     \<lparr>ended = e, self_after = self\<lparr>id_n := id_n self + 1\<rparr>,
      req_made = req_made (Call w self serviceMethod args None), reply_after = r\<rparr>"

section \<open>Facts about \<open>Call\<close>\<close>

lemma range_argSlice_eq:
  "idx + length argSlice \<le> length params \<Longrightarrow>
   range_argSlice idx argSlice params =
     take idx params @ map String_any argSlice @ drop (idx + length argSlice) params"
proof (induction argSlice arbitrary: idx params)
  case Nil
  then show ?case by simp
next
  case (Cons val rest)
  then show ?case
    by (simp add: take_Suc_conv_app_nth upd_conv_take_nth_drop drop_Suc add.commute)
qed

lemma req_made_Call:
  "req_made (Call w self serviceMethod args reply) =
     \<lparr>Jsonrpc = ''2.0'', Method = serviceMethod,
      Params = (case args of
                  StringSlice argSlice \<Rightarrow>
                    range_argSlice 0 argSlice (replicate (length argSlice) Nil_any)
                | _ \<Rightarrow> [args]),
      Id = id_n self\<rparr>"
  by (simp add: Call_def Let_def split: sum.split option.split)

lemma self_after_Call:
  "self_after (Call w self serviceMethod args reply) = self\<lparr>id_n := id_n self + 1\<rparr>"
  by (simp add: Call_def Let_def split: sum.split option.split)

lemma round_trip_Inr:
  assumes "round_trip w self serviceMethod args = Inr (status, respBody)"
  obtains body resp where
    "json_Marshal w (req_made (Call w self serviceMethod args None)) = Inr body"
    "http_Post w (url self) ''application/json'' body = Inr resp"
    "Body resp = Inr respBody" "StatusCode resp = status"
  using assms unfolding round_trip_def
  by (auto split: sum.splits)

lemma round_trip_Inl:
  assumes "round_trip w self serviceMethod args = Inl err"
  shows "json_Marshal w (req_made (Call w self serviceMethod args None)) = Inl err \<or>
    (\<exists>body. json_Marshal w (req_made (Call w self serviceMethod args None)) = Inr body \<and>
       (http_Post w (url self) ''application/json'' body = Inl err \<or>
        (\<exists>resp. http_Post w (url self) ''application/json'' body = Inr resp \<and>
           Body resp = Inl err)))"
  using assms unfolding round_trip_def
  by (auto split: sum.splits)

lemma Call_no_answer:
  assumes "round_trip w self serviceMethod args = Inl err"
  shows "Call w self serviceMethod args reply =
    leaves w self serviceMethod args (Returned (Some err)) reply"
  using round_trip_Inl [OF assms] unfolding req_made_Call leaves_def
  by (elim disjE exE conjE) (simp_all add: Call_def Let_def)

lemma Call_refused:
  assumes "round_trip w self serviceMethod args = Inr (status, respBody)"
    and "json_Unmarshal respBody = Inl err"
  shows "Call w self serviceMethod args reply =
    leaves w self serviceMethod args (Returned (Some err)) reply"
proof -
  from assms(1) obtain body resp where
    "json_Marshal w (req_made (Call w self serviceMethod args None)) = Inr body"
    "http_Post w (url self) ''application/json'' body = Inr resp"
    "Body resp = Inr respBody" "StatusCode resp = status"
    by (rule round_trip_Inr)
  with assms(2) show ?thesis
    unfolding req_made_Call leaves_def
    by (simp add: Call_def Let_def)
qed

lemma Call_answered:
  assumes "round_trip w self serviceMethod args = Inr (status, respBody)"
    and "json_Unmarshal respBody = Inr kamResponse"
  shows "Call w self serviceMethod args reply =
     (case Error kamResponse of
        Some e \<Rightarrow>
          leaves w self serviceMethod args (Returned (Some (ErrorsNew (Message e)))) reply
      | None \<Rightarrow>
          if status > 299
          then leaves w self serviceMethod args (Returned (Some (unexpected_status status))) reply
          else if Id_r kamResponse \<noteq> id_n self
          then leaves w self serviceMethod args
                 (Returned (Some (unsynchronized (id_n self) (Id_r kamResponse)))) reply
          else (case (reply, Result kamResponse) of
                  (Some old, Some raw) \<Rightarrow>
                    leaves w self serviceMethod args (Returned None) (Some raw)
                | _ \<Rightarrow> leaves w self serviceMethod args NilPointerDereference reply))"
proof -
  from assms(1) obtain body resp where
    "json_Marshal w (req_made (Call w self serviceMethod args None)) = Inr body"
    "http_Post w (url self) ''application/json'' body = Inr resp"
    "Body resp = Inr respBody" "StatusCode resp = status"
    by (rule round_trip_Inr)
  with assms(2) show ?thesis
    unfolding req_made_Call leaves_def
    by (simp add: Call_def Let_def unexpected_status_def unsynchronized_def
        split: option.split)
qed


lemma ended_leaves [simp]: "ended (leaves w self serviceMethod args e r) = e"
  by (simp add: leaves_def)

lemma reply_after_leaves [simp]: "reply_after (leaves w self serviceMethod args e r) = r"
  by (simp add: leaves_def)

lemma ended_Call:
  assumes "round_trip w self serviceMethod args = Inr (status, respBody)"
    and "json_Unmarshal respBody = Inr kamResponse"
  shows "ended (Call w self serviceMethod args reply) =
     (case Error kamResponse of
        Some e \<Rightarrow> Returned (Some (ErrorsNew (Message e)))
      | None \<Rightarrow>
          if status > 299 then Returned (Some (unexpected_status status))
          else if Id_r kamResponse \<noteq> id_n self
          then Returned (Some (unsynchronized (id_n self) (Id_r kamResponse)))
          else if reply = None \<or> Result kamResponse = None then NilPointerDereference
          else Returned None)"
  apply (subst Call_answered [OF assms])
  apply (cases "Error kamResponse")
   apply (cases reply; cases "Result kamResponse"; simp)
  apply simp
  done


lemma reply_after_Call:
  assumes "round_trip w self serviceMethod args = Inr (status, respBody)"
    and "json_Unmarshal respBody = Inr kamResponse"
  shows "reply_after (Call w self serviceMethod args reply) =
     (if ended (Call w self serviceMethod args reply) = Returned None
      then Result kamResponse else reply)"
  apply (subst (1 2) Call_answered [OF assms])
  apply (cases "Error kamResponse")
   apply (cases reply; cases "Result kamResponse"; simp)
  apply simp
  done

lemma round_trip_answering:
  "round_trip (answering status respBody) self serviceMethod args = Inr (status, respBody)"
  by (simp add: round_trip_def answering_def)

lemma Unmarshal_error_reply:
  "json_Unmarshal (error_reply i code msg) =
     Inr \<lparr>Jsonrpc_r = ''2.0'', Id_r = i, Result = None,
          Error = Some \<lparr>Code = code, Message = msg\<rparr>\<rparr>"
  by (simp add: json_Unmarshal_def error_reply_def plain_field_def pointer_field_def
      decode_KamError_def)

lemma Unmarshal_result_reply:
  "json_Unmarshal (result_reply i r) =
     Inr \<lparr>Jsonrpc_r = ''2.0'', Id_r = i, Result = pointer_field r, Error = None\<rparr>"
  by (simp add: json_Unmarshal_def result_reply_def plain_field_def pointer_field_def)

lemma id_n_fresh: "id_n fresh = 0"
  by (simp add: fresh_def NewKamailioJsonRpc_def)

lemma ended_error_reply:
  "ended (Call (answering status (error_reply i code msg)) self serviceMethod args reply) =
     Returned (Some (ErrorsNew msg))"
  by (simp add: ended_Call [OF round_trip_answering Unmarshal_error_reply])

lemma ended_result_reply:
  "ended (Call (answering status (result_reply i r)) self serviceMethod args reply) =
     (if status > 299 then Returned (Some (unexpected_status status))
      else if i \<noteq> id_n self then Returned (Some (unsynchronized (id_n self) i))
      else if reply = None \<or> pointer_field r = None then NilPointerDereference
      else Returned None)"
  by (simp add: ended_Call [OF round_trip_answering Unmarshal_result_reply])

lemma reply_after_result_reply:
  "reply_after (Call (answering status (result_reply i r)) self serviceMethod args reply) =
     (if ended (Call (answering status (result_reply i r)) self serviceMethod args reply) =
         Returned None
      then pointer_field r else reply)"
  by (simp add: reply_after_Call [OF round_trip_answering Unmarshal_result_reply])

section \<open>The claims\<close>

text \<open>
  Claim C1. \<open>Call\<close> checks in a fixed order. Once the body is decoded: an error object
  in the envelope is reported first, as an error with the object's message, whatever the
  status and the echoed identifier are (so also at status 200 with matching identifiers,
  and also when the later checks would fail); the status is reported when there is no
  error object and it is above 299; the identifier mismatch is reported when there is no
  error object and the status is at most 299.
\<close>

theorem Call_precedence:
  assumes "round_trip w self serviceMethod args = Inr (status, respBody)"
    and "json_Unmarshal respBody = Inr kamResponse"
  shows "(Error kamResponse = Some e \<longrightarrow>
            ended (Call w self serviceMethod args reply) =
              Returned (Some (ErrorsNew (Message e)))) \<and>
         (Error kamResponse = None \<and> status > 299 \<longrightarrow>
            ended (Call w self serviceMethod args reply) =
              Returned (Some (unexpected_status status))) \<and>
         (Error kamResponse = None \<and> status \<le> 299 \<and> Id_r kamResponse \<noteq> id_n self \<longrightarrow>
            ended (Call w self serviceMethod args reply) =
              Returned (Some (unsynchronized (id_n self) (Id_r kamResponse))))"
  by (simp add: ended_Call [OF assms])

theorem Call_precedence_witness:
  "ended (Call (answering 500 (error_reply 7 (- 32000) ''Execution Error'')) fresh
     ''core.echo'' (StringSlice [''ping'']) (Some [])) =
     Returned (Some (ErrorsNew ''Execution Error'')) \<and>
   ended (Call (answering 200 (error_reply 0 (- 32000) ''Execution Error'')) fresh
     ''core.echo'' (StringSlice [''ping'']) (Some [])) =
     Returned (Some (ErrorsNew ''Execution Error'')) \<and>
   ended (Call (answering 500 (result_reply 7 (Present ''[]''))) fresh
     ''core.echo'' (StringSlice [''ping'']) (Some [])) =
     Returned (Some (unexpected_status 500)) \<and>
   ended (Call (answering 200 (result_reply 7 (Present ''[]''))) fresh
     ''core.echo'' (StringSlice [''ping'']) (Some [])) =
     Returned (Some (unsynchronized 0 7))"
proof -
  let ?e = "\<lparr>Code = - 32000, Message = ''Execution Error''\<rparr>"
  let ?m = "''core.echo''" and ?a = "StringSlice [''ping''] :: unit any"
  have u1: "json_Unmarshal (error_reply 7 (- 32000) ''Execution Error'') =
      Inr \<lparr>Jsonrpc_r = ''2.0'', Id_r = 7, Result = None, Error = Some ?e\<rparr>"
    and u2: "json_Unmarshal (error_reply 0 (- 32000) ''Execution Error'') =
      Inr \<lparr>Jsonrpc_r = ''2.0'', Id_r = 0, Result = None, Error = Some ?e\<rparr>"
    by (rule Unmarshal_error_reply)+
  have u3: "json_Unmarshal (result_reply 7 (Present ''[]'')) =
      Inr \<lparr>Jsonrpc_r = ''2.0'', Id_r = 7, Result = Some ''[]'', Error = None\<rparr>"
    by (simp add: Unmarshal_result_reply pointer_field_def)
  show ?thesis
    using
      Call_precedence [OF round_trip_answering u1, where e = ?e and reply = "Some []"
        and self = fresh and serviceMethod = ?m and args = ?a and status = 500]
      Call_precedence [OF round_trip_answering u2, where e = ?e and reply = "Some []"
        and self = fresh and serviceMethod = ?m and args = ?a and status = 200]
      Call_precedence [OF round_trip_answering u3, where reply = "Some []"
        and self = fresh and serviceMethod = ?m and args = ?a and status = 500]
      Call_precedence [OF round_trip_answering u3, where reply = "Some []"
        and self = fresh and serviceMethod = ?m and args = ?a and status = 200]
    by (simp add: id_n_fresh)
qed

lemma ids_used_from:
  "ids_used self is = map (\<lambda>k. id_n self + of_nat k) [0..<length is]"
proof (induction "is" arbitrary: self)
  case Nil
  then show ?case by (simp add: ids_used_def)
next
  case (Cons i rest)
  have "ids_used self (i # rest) =
      id_n self # ids_used (self\<lparr>id_n := id_n self + 1\<rparr>) rest"
    by (simp add: ids_used_def Let_def req_made_Call self_after_Call)
  also have "\<dots> = id_n self # map (\<lambda>k. id_n self + 1 + of_nat k) [0..<length rest]"
    by (simp add: Cons.IH)
  also have "\<dots> = map (\<lambda>k. id_n self + of_nat k) [0..<length (i # rest)]"
    by (simp add: map_upt_Suc add.assoc del: upt_Suc)
  finally show ?case .
qed

lemma distinct_map_unat: "distinct (map unat ws) \<Longrightarrow> distinct ws"
  by (simp add: distinct_map)

text \<open>
  Claim C2, as amended. On a client fresh from \<open>NewKamailioJsonRpc\<close>, a sequence of \<open>n\<close>
  invocations of \<open>Call\<close>, \<open>n\<close> at most \<open>2 ^ 64\<close>, uses the identifiers \<open>0, 1, ..., n - 1\<close>
  in this order, whatever each call meets and however it ends: none is used twice, none
  is skipped. The counter is a \<^verbatim>\<open>uint64\<close>: the call after \<open>2 ^ 64\<close> calls uses \<open>0\<close>
  again.
\<close>

theorem identifiers_in_order:
  assumes "length is \<le> 2 ^ 64"
  shows "map unat (ids_used (fst (NewKamailioJsonRpc u skipTlsVerify)) is) = [0..<length is] \<and>
         distinct (ids_used (fst (NewKamailioJsonRpc u skipTlsVerify)) is)"
proof -
  let ?ids = "ids_used (fst (NewKamailioJsonRpc u skipTlsVerify)) is"
  have ids: "?ids = map (\<lambda>k. of_nat k) [0..<length is]"
    by (simp add: ids_used_from NewKamailioJsonRpc_def)
  have "map unat ?ids = map (\<lambda>k. k) [0..<length is]"
    unfolding ids map_map
  proof (rule map_cong [OF refl])
    fix k assume "k \<in> set [0..<length is]"
    with assms have "k < 2 ^ 64" by simp
    then show "(unat \<circ> (\<lambda>k. (of_nat k :: uint64))) k = k"
      by (simp add: unat_of_nat)
  qed
  then have *: "map unat ?ids = [0..<length is]" by simp
  then have "distinct (map unat ?ids)" by simp
  then have "distinct ?ids" by (rule distinct_map_unat)
  with * show ?thesis by simp
qed

theorem identifiers_in_order_witness:
  "length [ping, ping, ping] \<le> 2 ^ 64 \<and>
   ids_used (fst (NewKamailioJsonRpc ''http://127.0.0.1:5060/RPC'' True)) [ping, ping, ping] =
     [0, 1, 2]"
proof -
  have h: "length [ping, ping, ping] \<le> 2 ^ 64" by simp
  have "ids_used (fst (NewKamailioJsonRpc ''http://127.0.0.1:5060/RPC'' True)) [ping, ping, ping] =
     [0, 1, 2]"
    by (simp add: ids_used_def Let_def req_made_Call self_after_Call NewKamailioJsonRpc_def)
  with h identifiers_in_order [OF h, of "''http://127.0.0.1:5060/RPC''" True]
  show ?thesis by simp
qed

lemma ids_repeat:
  assumes "2 ^ 64 < n"
  shows "\<not> distinct (ids_used self (replicate n i))"
proof
  assume d: "distinct (ids_used self (replicate n i))"
  let ?f = "\<lambda>k. id_n self + (of_nat k :: uint64)"
  from d have "distinct (map ?f [0..<n])"
    by (simp add: ids_used_from)
  then have "inj_on ?f (set [0..<n])"
    by (simp add: distinct_map)
  moreover have "?f 0 = ?f (2 ^ 64)"
    by simp
  moreover have "0 \<in> set [0..<n]" "2 ^ 64 \<in> set [0..<n]"
    using assms by simp_all
  ultimately have "(0::nat) = 2 ^ 64"
    by (rule inj_onD)
  then show False by simp
qed

theorem identifier_reused_counterexample:
  "\<not> distinct (ids_used fresh (replicate (2 ^ 64 + 1) ping))"
proof -
  have "(2::nat) ^ 64 < 2 ^ 64 + 1" by simp
  then show ?thesis by (rule ids_repeat)
qed

text \<open>
  Claim C3, as amended. When the decoded envelope echoes an identifier other than the one
  sent, \<open>Call\<close> returns an error and leaves \<^verbatim>\<open>*reply\<close> as it was: no result is handed
  out, however well-formed the payload. The error is the unsynchronized-request error,
  naming the identifier sent and the one received, when the envelope has no error
  object and the status is at most 299 (an error object or a status above 299 is
  reported before the identifiers are compared).
\<close>

theorem mismatch_never_succeeds:
  assumes "round_trip w self serviceMethod args = Inr (status, respBody)"
    and "json_Unmarshal respBody = Inr kamResponse"
    and "Id_r kamResponse \<noteq> id_n self"
  shows "(\<exists>err. ended (Call w self serviceMethod args reply) = Returned (Some err)) \<and>
         reply_after (Call w self serviceMethod args reply) = reply \<and>
         (Error kamResponse = None \<and> status \<le> 299 \<longrightarrow>
            ended (Call w self serviceMethod args reply) =
              Returned (Some (ErrorsNew
                (''Unsynchronized request, had: '' @ decimal (unat (id_n self)) @
                 '', received: '' @ decimal (unat (Id_r kamResponse))))))"
proof -
  have e: "\<exists>err. ended (Call w self serviceMethod args reply) = Returned (Some err)"
    using assms(3)
    by (simp add: ended_Call [OF assms(1,2)] split: option.split)
  then have "ended (Call w self serviceMethod args reply) \<noteq> Returned None"
    by auto
  then have r: "reply_after (Call w self serviceMethod args reply) = reply"
    by (simp add: reply_after_Call [OF assms(1,2)])
  have "Error kamResponse = None \<and> status \<le> 299 \<longrightarrow>
      ended (Call w self serviceMethod args reply) =
        Returned (Some (unsynchronized (id_n self) (Id_r kamResponse)))"
    using assms(3) by (simp add: ended_Call [OF assms(1,2)])
  with e r show ?thesis
    by (simp add: unsynchronized_def)
qed

theorem mismatch_never_succeeds_witness:
  "ended (Call (answering 200 (result_reply 7 (Present ''[1, 2]''))) fresh ''core.echo''
     (StringSlice [''ping'']) (Some ''old'')) =
     Returned (Some (ErrorsNew ''Unsynchronized request, had: 0, received: 7'')) \<and>
   reply_after (Call (answering 200 (result_reply 7 (Present ''[1, 2]''))) fresh ''core.echo''
     (StringSlice [''ping'']) (Some ''old'')) = Some ''old''"
proof -
  have u: "json_Unmarshal (result_reply 7 (Present ''[1, 2]'')) =
      Inr \<lparr>Jsonrpc_r = ''2.0'', Id_r = 7, Result = Some ''[1, 2]'', Error = None\<rparr>"
    by (simp add: Unmarshal_result_reply pointer_field_def)
  have n: "Id_r \<lparr>Jsonrpc_r = ''2.0'', Id_r = 7, Result = Some ''[1, 2]'', Error = None\<rparr> \<noteq>
      id_n fresh"
    by (simp add: id_n_fresh)
  show ?thesis
    using mismatch_never_succeeds [OF round_trip_answering u n,
        where serviceMethod = "''core.echo''" and args = "StringSlice [''ping'']"
          and reply = "Some ''old''"]
    by (simp add: id_n_fresh decimal.simps)
qed

text \<open>
  A response to a fresh client's first call (identifier 0) that echoes 7 and carries an
  error object: the error returned is the object's message, not the mismatch.
\<close>

theorem mismatch_with_error_object_counterexample:
  "Id_r \<lparr>Jsonrpc_r = ''2.0'', Id_r = 7, Result = None,
         Error = Some \<lparr>Code = - 32000, Message = ''Execution Error''\<rparr>\<rparr> \<noteq> id_n fresh \<and>
   json_Unmarshal (error_reply 7 (- 32000) ''Execution Error'') =
     Inr \<lparr>Jsonrpc_r = ''2.0'', Id_r = 7, Result = None,
          Error = Some \<lparr>Code = - 32000, Message = ''Execution Error''\<rparr>\<rparr> \<and>
   ended (Call (answering 200 (error_reply 7 (- 32000) ''Execution Error'')) fresh
     ''core.echo'' (StringSlice [''ping'']) (Some ''old'')) =
     Returned (Some (ErrorsNew ''Execution Error''))"
  by (simp add: id_n_fresh Unmarshal_error_reply ended_error_reply)

text \<open>
  Claim C4. A response with status 200 whose body echoes the identifier sent, has no
  error object and has a \<^verbatim>\<open>result\<close> member with a value: \<open>Call\<close> returns nil and
  \<^verbatim>\<open>*reply\<close> holds the text of that value as it stood in the body. (\<^verbatim>\<open>reply\<close> is a
  location: the caller did not pass nil.)
\<close>

theorem result_passed_through:
  assumes "round_trip w self serviceMethod args = Inr (200, Document d)"
    and "id_m d = Present (id_n self)"
    and "error_m d = Absent \<or> error_m d = Null"
    and "result_m d = Present raw"
    and "reply = Some old"
  shows "ended (Call w self serviceMethod args reply) = Returned None \<and>
         reply_after (Call w self serviceMethod args reply) = Some raw"
proof -
  have u: "json_Unmarshal (Document d) =
      Inr \<lparr>Jsonrpc_r = plain_field [] (jsonrpc_m d), Id_r = id_n self, Result = Some raw,
           Error = None\<rparr>"
    using assms(2-4)
    by (auto simp add: json_Unmarshal_def plain_field_def pointer_field_def)
  have e: "ended (Call w self serviceMethod args reply) = Returned None"
    using assms(5) by (simp add: ended_Call [OF assms(1) u])
  then show ?thesis
    by (simp add: reply_after_Call [OF assms(1) u])
qed

theorem result_passed_through_witness:
  "ended (Call (answering 200 (result_reply 0 (Present ''[1,  [2] ]''))) fresh
     ''core.echo'' (StringSlice [''ping'']) (Some ''old'')) = Returned None \<and>
   reply_after (Call (answering 200 (result_reply 0 (Present ''[1,  [2] ]''))) fresh
     ''core.echo'' (StringSlice [''ping'']) (Some ''old'')) = Some ''[1,  [2] ]''"
proof -
  let ?d = "\<lparr>jsonrpc_m = Present ''2.0'', id_m = Present 0,
             result_m = Present ''[1,  [2] ]'', error_m = Absent\<rparr>"
  have r: "round_trip (answering 200 (result_reply 0 (Present ''[1,  [2] ]''))) fresh
      ''core.echo'' (StringSlice [''ping'']) = Inr (200, Document ?d)"
    by (simp add: round_trip_answering result_reply_def)
  have "id_m ?d = Present (id_n fresh)" "error_m ?d = Absent \<or> error_m ?d = Null"
    "result_m ?d = Present ''[1,  [2] ]''"
    by (simp_all add: id_n_fresh)
  from result_passed_through [OF r this refl] show ?thesis .
qed

lemma req_made_params:
  assumes "args = StringSlice argSlice \<and> params = map String_any argSlice \<or>
           (\<forall>ss. args \<noteq> StringSlice ss) \<and> params = [args]"
  shows "req_made (Call w self serviceMethod args reply) =
     \<lparr>Jsonrpc = ''2.0'', Method = serviceMethod, Params = params, Id = id_n self\<rparr>"
  using assms
  by (cases args) (auto simp add: req_made_Call range_argSlice_eq)

text \<open>
  Claim C5. In every invocation of \<open>Call\<close>, the request envelope that is encoded has as
  its parameters, for \<^verbatim>\<open>args\<close> a \<^verbatim>\<open>[]string\<close>, exactly the strings of \<^verbatim>\<open>args\<close>, each
  its own, in the same order, and for any other \<^verbatim>\<open>args\<close> the one parameter \<^verbatim>\<open>args\<close>.
  That envelope \<open>req\<close> is the one \<^verbatim>\<open>json.Marshal\<close> is applied to, and what it gives is
  the body posted: an error of \<^verbatim>\<open>json.Marshal\<close> on \<open>req\<close> is what \<open>Call\<close> returns; an
  error of the POST of the encoding of \<open>req\<close> (to the client's URL, as
  \<^verbatim>\<open>application/json\<close>), or of reading its response, is what \<open>Call\<close> returns; and
  the answer to that POST is the one \<open>Call\<close> decodes and checks.
\<close>

theorem Call_serializes_params:
  assumes "args = StringSlice argSlice \<and> params = map String_any argSlice \<or>
           (\<forall>ss. args \<noteq> StringSlice ss) \<and> params = [args]"
    and "req = \<lparr>Jsonrpc = ''2.0'', Method = serviceMethod, Params = params, Id = id_n self\<rparr>"
  shows "req_made (Call w self serviceMethod args reply) = req \<and>
    (json_Marshal w req = Inl err \<longrightarrow>
       ended (Call w self serviceMethod args reply) = Returned (Some err)) \<and>
    (json_Marshal w req = Inr body \<and>
     http_Post w (url self) ''application/json'' body = Inl err \<longrightarrow>
       ended (Call w self serviceMethod args reply) = Returned (Some err)) \<and>
    (json_Marshal w req = Inr body \<and>
     http_Post w (url self) ''application/json'' body = Inr resp \<and>
     Body resp = Inl err \<longrightarrow>
       ended (Call w self serviceMethod args reply) = Returned (Some err)) \<and>
    (json_Marshal w req = Inr body \<and>
     http_Post w (url self) ''application/json'' body = Inr resp \<and>
     Body resp = Inr respBody \<and> json_Unmarshal respBody = Inr kamResponse \<longrightarrow>
       ended (Call w self serviceMethod args reply) =
         (case Error kamResponse of
            Some e \<Rightarrow> Returned (Some (ErrorsNew (Message e)))
          | None \<Rightarrow>
              if StatusCode resp > 299 then Returned (Some (unexpected_status (StatusCode resp)))
              else if Id_r kamResponse \<noteq> id_n self
              then Returned (Some (unsynchronized (id_n self) (Id_r kamResponse)))
              else if reply = None \<or> Result kamResponse = None then NilPointerDereference
              else Returned None))"
proof -
  have q: "req_made (Call w self serviceMethod args r) = req" for r
    unfolding assms(2) using assms(1) by (rule req_made_params)
  have m: "ended (Call w self serviceMethod args reply) = Returned (Some err)"
    if "json_Marshal w req = Inl err"
  proof -
    from that have "round_trip w self serviceMethod args = Inl err"
      by (simp add: round_trip_def q)
    then show ?thesis
      by (simp add: Call_no_answer [where reply = reply])
  qed
  have p: "ended (Call w self serviceMethod args reply) = Returned (Some err)"
    if "json_Marshal w req = Inr body"
      and "http_Post w (url self) ''application/json'' body = Inl err"
  proof -
    from that have "round_trip w self serviceMethod args = Inl err"
      by (simp add: round_trip_def q)
    then show ?thesis
      by (simp add: Call_no_answer [where reply = reply])
  qed
  have b: "ended (Call w self serviceMethod args reply) = Returned (Some err)"
    if "json_Marshal w req = Inr body"
      and "http_Post w (url self) ''application/json'' body = Inr resp"
      and "Body resp = Inl err"
  proof -
    from that have "round_trip w self serviceMethod args = Inl err"
      by (simp add: round_trip_def q)
    then show ?thesis
      by (simp add: Call_no_answer [where reply = reply])
  qed
  have a: "ended (Call w self serviceMethod args reply) =
         (case Error kamResponse of
            Some e \<Rightarrow> Returned (Some (ErrorsNew (Message e)))
          | None \<Rightarrow>
              if StatusCode resp > 299 then Returned (Some (unexpected_status (StatusCode resp)))
              else if Id_r kamResponse \<noteq> id_n self
              then Returned (Some (unsynchronized (id_n self) (Id_r kamResponse)))
              else if reply = None \<or> Result kamResponse = None then NilPointerDereference
              else Returned None)"
    if "json_Marshal w req = Inr body"
      and "http_Post w (url self) ''application/json'' body = Inr resp"
      and "Body resp = Inr respBody" and u: "json_Unmarshal respBody = Inr kamResponse"
  proof -
    from that have "round_trip w self serviceMethod args = Inr (StatusCode resp, respBody)"
      by (simp add: round_trip_def q)
    then show ?thesis
      using u by (rule ended_Call)
  qed
  from q m p b a show ?thesis
    by blast
qed

theorem Call_serializes_params_witness:
  "ended (Call echoing fresh ''core.echo'' (Other ()) (Some [])) =
     Returned (Some (LibraryError ''json: unsupported type'')) \<and>
   ended (Call echoing fresh ''core.echo'' (StringSlice [''a'', ''b'']) (Some [])) =
     Returned (Some (LibraryError ''connection refused'')) \<and>
   ended (Call echoing fresh ''core.echo'' (StringSlice [''b'', ''a'']) (Some [])) =
     Returned None \<and>
   ended (Call echoing fresh ''core.echo'' (String_any ''ab'') (Some [])) = Returned None"
proof -
  let ?req = "\<lambda>ps. \<lparr>Jsonrpc = ''2.0'', Method = ''core.echo'', Params = ps, Id = id_n fresh\<rparr>"
  have u: "json_Unmarshal (result_reply 0 (Present b)) =
      Inr \<lparr>Jsonrpc_r = ''2.0'', Id_r = 0, Result = Some b, Error = None\<rparr>" for b
    by (simp add: Unmarshal_result_reply pointer_field_def)
  have 1: "ended (Call echoing fresh ''core.echo'' (Other ()) (Some [])) =
     Returned (Some (LibraryError ''json: unsupported type''))"
    using Call_serializes_params [where args = "Other ()" and params = "[Other ()]"
        and req = "?req [Other ()]" and serviceMethod = "''core.echo''" and self = fresh
        and w = echoing and reply = "Some []" and err = "LibraryError ''json: unsupported type''"]
    by (simp add: echoing_def)
  have 2: "ended (Call echoing fresh ''core.echo'' (StringSlice [''a'', ''b'']) (Some [])) =
     Returned (Some (LibraryError ''connection refused''))"
    using Call_serializes_params [where args = "StringSlice [''a'', ''b'']"
        and argSlice = "[''a'', ''b'']" and params = "[String_any ''a'', String_any ''b'']"
        and req = "?req [String_any ''a'', String_any ''b'']"
        and serviceMethod = "''core.echo''" and self = fresh
        and w = echoing and reply = "Some []" and err = "LibraryError ''connection refused''"
        and body = "''a,b,''"]
    by (simp add: echoing_def)
  have 3: "ended (Call echoing fresh ''core.echo'' (StringSlice [''b'', ''a'']) (Some [])) =
     Returned None"
    using Call_serializes_params [where args = "StringSlice [''b'', ''a'']"
        and argSlice = "[''b'', ''a'']" and params = "[String_any ''b'', String_any ''a'']"
        and req = "?req [String_any ''b'', String_any ''a'']"
        and serviceMethod = "''core.echo''" and self = fresh
        and w = echoing and reply = "Some []" and body = "''b,a,''"
        and resp = "\<lparr>StatusCode = 200, Body = Inr (result_reply 0 (Present ''b,a,''))\<rparr>"
        and respBody = "result_reply 0 (Present ''b,a,'')"
        and kamResponse = "\<lparr>Jsonrpc_r = ''2.0'', Id_r = 0, Result = Some ''b,a,'', Error = None\<rparr>"]
    by (simp add: echoing_def u id_n_fresh)
  have 4: "ended (Call echoing fresh ''core.echo'' (String_any ''ab'') (Some [])) = Returned None"
    using Call_serializes_params [where args = "String_any ''ab''"
        and params = "[String_any ''ab'']"
        and req = "?req [String_any ''ab'']"
        and serviceMethod = "''core.echo''" and self = fresh
        and w = echoing and reply = "Some []" and body = "''ab,''"
        and resp = "\<lparr>StatusCode = 200, Body = Inr (result_reply 0 (Present ''ab,''))\<rparr>"
        and respBody = "result_reply 0 (Present ''ab,'')"
        and kamResponse = "\<lparr>Jsonrpc_r = ''2.0'', Id_r = 0, Result = Some ''ab,'', Error = None\<rparr>"]
    by (simp add: echoing_def u id_n_fresh)
  from 1 2 3 4 show ?thesis by simp
qed

text \<open>
  Claim C6, as amended. When the body carries an error object, \<open>Call\<close> returns an error
  that holds the object's message word for word, and leaves \<^verbatim>\<open>*reply\<close> as it was. The
  error is \<^verbatim>\<open>errors.New(kamResponse.Error.Message)\<close>: nothing of the object's code is in
  it.
\<close>

theorem error_object_message_reported:
  assumes "round_trip w self serviceMethod args = Inr (status, Document d)"
    and "error_m d = Present obj"
    and "message_m obj = Present msg"
  shows "ended (Call w self serviceMethod args reply) = Returned (Some (ErrorsNew msg)) \<and>
         reply_after (Call w self serviceMethod args reply) = reply"
proof -
  have u: "json_Unmarshal (Document d) =
      Inr \<lparr>Jsonrpc_r = plain_field [] (jsonrpc_m d), Id_r = plain_field 0 (id_m d),
           Result = pointer_field (result_m d),
           Error = Some \<lparr>Code = plain_field 0 (code_m obj), Message = msg\<rparr>\<rparr>"
    using assms(2,3)
    by (simp add: json_Unmarshal_def plain_field_def pointer_field_def decode_KamError_def)
  have e: "ended (Call w self serviceMethod args reply) = Returned (Some (ErrorsNew msg))"
    by (simp add: ended_Call [OF assms(1) u])
  then show ?thesis
    by (simp add: reply_after_Call [OF assms(1) u])
qed

theorem error_object_message_reported_witness:
  "ended (Call (answering 200 (error_reply 0 (- 32000) ''Execution Error'')) fresh
     ''uac.reg_info'' (StringSlice [''reg1'']) (Some ''old'')) =
     Returned (Some (ErrorsNew ''Execution Error'')) \<and>
   reply_after (Call (answering 200 (error_reply 0 (- 32000) ''Execution Error'')) fresh
     ''uac.reg_info'' (StringSlice [''reg1'']) (Some ''old'')) = Some ''old''"
proof -
  let ?obj = "\<lparr>code_m = Present (- 32000), message_m = Present ''Execution Error''\<rparr>"
  let ?d = "\<lparr>jsonrpc_m = Present ''2.0'', id_m = Present 0, result_m = Absent,
             error_m = Present ?obj\<rparr>"
  have r: "round_trip (answering 200 (error_reply 0 (- 32000) ''Execution Error'')) fresh
      ''uac.reg_info'' (StringSlice [''reg1'']) = Inr (200, Document ?d)"
    by (simp add: round_trip_answering error_reply_def)
  have "error_m ?d = Present ?obj" "message_m ?obj = Present ''Execution Error''"
    by simp_all
  from error_object_message_reported [OF r this] show ?thesis .
qed

text \<open>
  Two error objects with the same message and the codes -32000 and -32601: what \<open>Call\<close>
  leaves behind is the same.
\<close>

theorem code_not_carried_counterexample:
  "Call (answering 200 (error_reply 0 (- 32000) ''Execution Error'')) fresh
     ''uac.reg_info'' (StringSlice [''reg1'']) (Some ''old'') =
   Call (answering 200 (error_reply 0 (- 32601) ''Execution Error'')) fresh
     ''uac.reg_info'' (StringSlice [''reg1'']) (Some ''old'') \<and>
   ended (Call (answering 200 (error_reply 0 (- 32000) ''Execution Error'')) fresh
     ''uac.reg_info'' (StringSlice [''reg1'']) (Some ''old'')) =
     Returned (Some (ErrorsNew ''Execution Error''))"
  by (simp add: Call_answered [OF round_trip_answering Unmarshal_error_reply,
        where reply = "Some ''old''"] leaves_def req_made_Call)

text \<open>
  Claim C7, as amended. When the decoded envelope has no error object and the status is
  above 299, \<open>Call\<close> returns the unexpected-status error, whose text ends in the status in
  decimal, and leaves \<^verbatim>\<open>*reply\<close> as it was.
\<close>

theorem status_above_299_reported:
  assumes "round_trip w self serviceMethod args = Inr (status, respBody)"
    and "json_Unmarshal respBody = Inr kamResponse"
    and "Error kamResponse = None"
    and "status > 299"
  shows "ended (Call w self serviceMethod args reply) =
           Returned (Some (ErrorsNew (''Unexpected status code received: '' @ fmt_d status))) \<and>
         reply_after (Call w self serviceMethod args reply) = reply"
proof -
  have e: "ended (Call w self serviceMethod args reply) =
      Returned (Some (unexpected_status status))"
    using assms(3,4) by (simp add: ended_Call [OF assms(1,2)])
  then show ?thesis
    by (simp add: reply_after_Call [OF assms(1,2)] unexpected_status_def)
qed

theorem status_above_299_reported_witness:
  "ended (Call (answering 500 (result_reply 0 (Present ''[1, 2]''))) fresh ''core.echo''
     (StringSlice [''ping'']) (Some ''old'')) =
     Returned (Some (ErrorsNew ''Unexpected status code received: 500'')) \<and>
   reply_after (Call (answering 500 (result_reply 0 (Present ''[1, 2]''))) fresh ''core.echo''
     (StringSlice [''ping'']) (Some ''old'')) = Some ''old''"
proof -
  have u: "json_Unmarshal (result_reply 0 (Present ''[1, 2]'')) =
      Inr \<lparr>Jsonrpc_r = ''2.0'', Id_r = 0, Result = Some ''[1, 2]'', Error = None\<rparr>"
    by (simp add: Unmarshal_result_reply pointer_field_def)
  have n: "Error \<lparr>Jsonrpc_r = ''2.0'', Id_r = 0, Result = Some ''[1, 2]'', Error = None\<rparr> = None"
    by simp
  have s: "(500::int) > 299" by simp
  have f: "fmt_d 500 = ''500''"
    by (simp add: fmt_d_def decimal.simps)
  show ?thesis
    using status_above_299_reported [OF round_trip_answering u n s,
        where self = fresh and serviceMethod = "''core.echo''"
          and args = "StringSlice [''ping'']" and reply = "Some ''old''"]
    by (simp add: f)
qed

text \<open>
  Status 101 is outside 200 to 299, and line 93 lets it pass: with a matching identifier
  and a result, \<open>Call\<close> returns nil and hands out the result.
\<close>

theorem status_below_200_counterexample:
  "json_Unmarshal (result_reply 0 (Present ''[1, 2]'')) =
     Inr \<lparr>Jsonrpc_r = ''2.0'', Id_r = 0, Result = Some ''[1, 2]'', Error = None\<rparr> \<and>
   ended (Call (answering 101 (result_reply 0 (Present ''[1, 2]''))) fresh ''core.echo''
     (StringSlice [''ping'']) (Some ''old'')) = Returned None \<and>
   reply_after (Call (answering 101 (result_reply 0 (Present ''[1, 2]''))) fresh ''core.echo''
     (StringSlice [''ping'']) (Some ''old'')) = Some ''[1, 2]''"
  by (simp add: Unmarshal_result_reply ended_result_reply reply_after_result_reply
      pointer_field_def id_n_fresh)

lemma absent_result_dereferenced:
  assumes "round_trip w self serviceMethod args = Inr (status, respBody)"
    and "json_Unmarshal respBody = Inr kamResponse"
    and "Error kamResponse = None" and "status \<le> 299"
    and "Id_r kamResponse = id_n self" and "Result kamResponse = None"
  shows "ended (Call w self serviceMethod args reply) = NilPointerDereference"
  using assms(3-6) by (simp add: ended_Call [OF assms(1,2)])

text \<open>
  Claim C8, on the code. \<open>UacRegEnable\<close> on a fresh client, answered with status 200 and
  the body \<^verbatim>\<open>{"jsonrpc":"2.0","id":0,"result":null}\<close>: \<^verbatim>\<open>json.Unmarshal\<close> leaves
  \<^verbatim>\<open>kamResponse.Result\<close> nil, line 99 dereferences it, and the wrapper neither returns
  \<open>OK\<close> nor an error.
\<close>

theorem UacRegEnable_null_result_panics:
  "ok_ended (UacRegEnable (answering 200 (result_reply 0 Null)) fresh [''reg1''] (Some [])) =
     NilPointerDereference"
  by (simp add: UacRegEnable_def call_then_OK_def Let_def ended_result_reply
      pointer_field_def id_n_fresh)

text \<open>
  Claim C9, on the code. \<open>Call\<close> on a fresh client, answered with status 200 and the body
  \<^verbatim>\<open>{"jsonrpc":"2.0","id":0}\<close> (neither result nor error): line 99 dereferences the
  nil \<^verbatim>\<open>kamResponse.Result\<close>, so \<open>Call\<close> returns neither a value nor an error.
\<close>

theorem Call_no_result_panics:
  "json_Unmarshal (result_reply 0 Absent) =
     Inr \<lparr>Jsonrpc_r = ''2.0'', Id_r = 0, Result = None, Error = None\<rparr> \<and>
   ended (Call (answering 200 (result_reply 0 Absent)) fresh ''core.echo''
     (StringSlice [''ping'']) (Some [])) = NilPointerDereference"
  by (simp add: Unmarshal_result_reply ended_result_reply pointer_field_def id_n_fresh)

lemma Call_cases:
  obtains (no_answer) err where "round_trip w self serviceMethod args = Inl err"
    "Call w self serviceMethod args reply =
       leaves w self serviceMethod args (Returned (Some err)) reply"
  | (refused) status respBody err where
      "round_trip w self serviceMethod args = Inr (status, respBody)"
      "json_Unmarshal respBody = Inl err"
      "Call w self serviceMethod args reply =
         leaves w self serviceMethod args (Returned (Some err)) reply"
  | (answered) status respBody kamResponse where
      "round_trip w self serviceMethod args = Inr (status, respBody)"
      "json_Unmarshal respBody = Inr kamResponse"
proof (cases "round_trip w self serviceMethod args")
  case (Inl err)
  then show ?thesis
    using no_answer Call_no_answer by blast
next
  case (Inr p)
  then obtain status respBody where
    r: "round_trip w self serviceMethod args = Inr (status, respBody)"
    by (cases p) simp
  show ?thesis
  proof (cases "json_Unmarshal respBody")
    case (Inl err)
    with r show ?thesis
      using refused Call_refused by blast
  next
    case (Inr kamResponse)
    with r show ?thesis
      using answered by blast
  qed
qed

text \<open>
  Claim C10. Whenever \<open>Call\<close> does not return nil (it returns an error, from whichever
  step), \<^verbatim>\<open>*reply\<close> is as the caller left it. When \<open>Call\<close> returns nil, the round trip
  succeeded, the body decoded, and all three checks passed (no error object, status at
  most 299, matching identifier), and \<^verbatim>\<open>*reply\<close> holds the envelope's result: the one
  write, at line 99.
\<close>

theorem reply_written_on_success_only:
  "(ended (Call w self serviceMethod args reply) \<noteq> Returned None \<longrightarrow>
      reply_after (Call w self serviceMethod args reply) = reply) \<and>
   (ended (Call w self serviceMethod args reply) = Returned None \<longrightarrow>
      (\<exists>status respBody kamResponse raw.
         round_trip w self serviceMethod args = Inr (status, respBody) \<and>
         json_Unmarshal respBody = Inr kamResponse \<and>
         Error kamResponse = None \<and> status \<le> 299 \<and> Id_r kamResponse = id_n self \<and>
         Result kamResponse = Some raw \<and>
         reply_after (Call w self serviceMethod args reply) = Some raw))"
proof (cases rule: Call_cases [of w self serviceMethod args reply])
  case (no_answer err)
  then show ?thesis by simp
next
  case (refused status respBody err)
  then show ?thesis by simp
next
  case (answered status respBody kamResponse)
  have "ended (Call w self serviceMethod args reply) = Returned None \<longrightarrow>
      Error kamResponse = None \<and> status \<le> 299 \<and> Id_r kamResponse = id_n self \<and>
      (\<exists>raw. Result kamResponse = Some raw)"
    by (simp add: ended_Call [OF answered] split: option.split if_split)
  with answered show ?thesis
    by (auto simp add: reply_after_Call [OF answered])
qed

theorem reply_written_on_success_only_witness:
  "reply_after (Call (answering 500 (result_reply 0 (Present ''[1, 2]''))) fresh ''core.echo''
     (StringSlice [''ping'']) (Some ''old'')) = Some ''old'' \<and>
   reply_after (Call (answering 200 (result_reply 0 (Present ''[1, 2]''))) fresh ''core.echo''
     (StringSlice [''ping'']) (Some ''old'')) = Some ''[1, 2]''"
  using
    reply_written_on_success_only [of "answering 500 (result_reply 0 (Present ''[1, 2]''))"
      fresh "''core.echo''" "StringSlice [''ping'']" "Some ''old''"]
    reply_written_on_success_only [of "answering 200 (result_reply 0 (Present ''[1, 2]''))"
      fresh "''core.echo''" "StringSlice [''ping'']" "Some ''old''"]
  by (simp add: ended_result_reply round_trip_answering Unmarshal_result_reply
      pointer_field_def id_n_fresh)

end
